theory Spec2Isabelle
  imports Complex_Main
begin

section \<open>Lactic acidosis detection: the data\<close>

text \<open>
  The pipeline of \<^verbatim>\<open>acidosis_detection.py\<close> works on pandas data frames. A data frame
  is modelled as the list of its rows, in row order, and each kind of row as a record
  with the columns the queries select.

  Instants (\<^verbatim>\<open>datetime\<close>) are integers, the number of microseconds since the epoch,
  and a \<^verbatim>\<open>timedelta\<close> is the integer difference of two instants. A measured value
  is a real number: \<^verbatim>\<open>fetch_lab_events\<close> selects rows with
  \<^verbatim>\<open>valuenum IS NOT NULL\<close> only. The two thresholds are compared as reals; the
  double nearest to 7.35 lies below 7.35, so on doubles both readings of
  \<^verbatim>\<open>value <= 7.35\<close> agree.
\<close>

type_synonym instant = int
type_synonym timedelta = int

record labevent =
  subject_id :: int
  hadm_id :: "int option"
  charttime :: instant
  itemid :: int
  measure_value :: real

text \<open>
  A row of \<^verbatim>\<open>emar\<close>. The query of \<^verbatim>\<open>fetch_vasoactive_drugs\<close> does not filter on
  the schedule time, so the column may hold a missing value (\<^verbatim>\<open>NaT\<close>), which is
  \<open>None\<close> here.
\<close>

record emar =
  subject_id :: int
  medication :: string
  scheduletime :: "instant option"

type_synonym episode = "instant \<times> instant"

section \<open>The measurement classifier\<close>

text \<open>
  Lines 154 to 157: \<^verbatim>\<open>(itemid in lactate_items and value > 4.0) or
  (itemid in ph_items and value <= 7.35)\<close>. The item lists are Python lists
  (\<^verbatim>\<open>get_lactate_ph_items\<close> returns \<^verbatim>\<open>tolist()\<close>), and \<^verbatim>\<open>in\<close> is membership.
\<close>

definition is_abnormal :: "int list \<Rightarrow> int list \<Rightarrow> int \<Rightarrow> real \<Rightarrow> bool" where
  "is_abnormal lactate_items ph_items item val \<longleftrightarrow>
     (item \<in> set lactate_items \<and> val > 4.0) \<or> (item \<in> set ph_items \<and> val \<le> 7.35)"

section \<open>The episode scan\<close>

text \<open>
  The inner loop of \<^verbatim>\<open>identify_acidosis_episodes\<close> (lines 149 to 166) keeps two
  variables: \<^verbatim>\<open>start\<close>, the instant at which the open run began or \<^verbatim>\<open>None\<close>, and
  \<^verbatim>\<open>episodes\<close>, the list built by \<^verbatim>\<open>append\<close>. \<open>scan_record\<close> is one pass
  through the loop body, \<open>scan_records\<close> the loop from any state, and
  \<open>find_episodes\<close> the loop from the initial state \<^verbatim>\<open>(None, [])\<close>.
\<close>

type_synonym scan_state = "instant option \<times> episode list"

definition scan_record ::
  "int list \<Rightarrow> int list \<Rightarrow> timedelta \<Rightarrow> scan_state \<Rightarrow> labevent \<Rightarrow> scan_state" where
  "scan_record lactate_items ph_items min_duration st record =
     (case st of (start, episodes) \<Rightarrow>
        if is_abnormal lactate_items ph_items (itemid record) (measure_value record) then
          (case start of
             None \<Rightarrow> (Some (charttime record), episodes)
           | Some s \<Rightarrow> (Some s, episodes))
        else
          (case start of
             None \<Rightarrow> (None, episodes)
           | Some s \<Rightarrow>
               (let end_time = charttime record in
                (None,
                 if end_time - s \<ge> min_duration then episodes @ [(s, end_time)]
                 else episodes))))"

fun scan_records ::
  "int list \<Rightarrow> int list \<Rightarrow> timedelta \<Rightarrow> scan_state \<Rightarrow> labevent list \<Rightarrow> scan_state" where
  "scan_records lactate_items ph_items min_duration st [] = st"
| "scan_records lactate_items ph_items min_duration st (record # data) =
     scan_records lactate_items ph_items min_duration
       (scan_record lactate_items ph_items min_duration st record) data"

definition find_episodes ::
  "int list \<Rightarrow> int list \<Rightarrow> timedelta \<Rightarrow> labevent list \<Rightarrow> episode list" where
  "find_episodes lactate_items ph_items min_duration data =
     snd (scan_records lactate_items ph_items min_duration (None, []) data)"

text \<open>The default of the parameter \<^verbatim>\<open>min_duration\<close>: \<^verbatim>\<open>timedelta(minutes=120)\<close>.\<close>

definition default_min_duration :: timedelta where
  "default_min_duration = 120 * 60 * 1000000"

section \<open>The medication window\<close>

text \<open>
  Lines 168 to 175. For each episode the rows of \<^verbatim>\<open>subject_drugs\<close> whose schedule
  time lies strictly between \<^verbatim>\<open>start\<close> and \<^verbatim>\<open>end\<close> are selected; a comparison
  with a missing time is false in pandas. At the first episode whose selection is not
  empty the subject is appended to \<^verbatim>\<open>candidates\<close> and the loop is left
  (\<^verbatim>\<open>break\<close>). \<open>check_episodes\<close> returns the list of candidates after the loop.
\<close>

definition in_window :: "instant \<Rightarrow> instant \<Rightarrow> emar \<Rightarrow> bool" where
  "in_window start end_time a =
     (case scheduletime a of None \<Rightarrow> False | Some t \<Rightarrow> t > start \<and> t < end_time)"

definition meds_in_window :: "emar list \<Rightarrow> instant \<Rightarrow> instant \<Rightarrow> emar list" where
  "meds_in_window subject_drugs start end_time =
     filter (in_window start end_time) subject_drugs"

fun check_episodes :: "emar list \<Rightarrow> int \<Rightarrow> int list \<Rightarrow> episode list \<Rightarrow> int list" where
  "check_episodes subject_drugs sid candidates [] = candidates"
| "check_episodes subject_drugs sid candidates ((start, end_time) # episodes) =
     (if meds_in_window subject_drugs start end_time \<noteq> [] then candidates @ [sid]
      else check_episodes subject_drugs sid candidates episodes)"

section \<open>The loop over the subjects\<close>

text \<open>
  \<^verbatim>\<open>bp.groupby('subject_id')\<close> yields one group for each distinct subject, in
  ascending order of the key (pandas sorts the group keys by default), each group with
  its rows in their order in \<^verbatim>\<open>bp\<close>.
\<close>

definition groupby_subject_id :: "labevent list \<Rightarrow> (int \<times> labevent list) list" where
  "groupby_subject_id bp =
     map (\<lambda>k. (k, filter (\<lambda>r. labevent.subject_id r = k) bp))
       (sort (remdups (map labevent.subject_id bp)))"

text \<open>
  \<^verbatim>\<open>data.sort_values('charttime')\<close> uses the default sort kind of pandas, quicksort,
  which does not promise an order for rows with equal times. The sort is therefore a
  parameter \<open>sort_values\<close> of the model, and \<open>sort_by_charttime\<close> is one such sort
  (the stable one). \<open>subject_step\<close> is the body of the outer loop (lines 148 to 175)
  for one group, \<open>subjects_loop\<close> the loop.
\<close>

definition sort_by_charttime :: "labevent list \<Rightarrow> labevent list" where
  "sort_by_charttime data = sort_key charttime data"

definition subject_step ::
  "(labevent list \<Rightarrow> labevent list) \<Rightarrow> emar list \<Rightarrow> int list \<Rightarrow> int list \<Rightarrow> timedelta
     \<Rightarrow> int list \<Rightarrow> int \<times> labevent list \<Rightarrow> int list" where
  "subject_step sort_values vadrugs lactate_items ph_items min_duration candidates grp =
     (case grp of (sid, group_rows) \<Rightarrow>
        (let data = sort_values group_rows;
             episodes = find_episodes lactate_items ph_items min_duration data;
             subject_drugs = filter (\<lambda>a. emar.subject_id a = sid) vadrugs
         in check_episodes subject_drugs sid candidates episodes))"

fun subjects_loop ::
  "(labevent list \<Rightarrow> labevent list) \<Rightarrow> emar list \<Rightarrow> int list \<Rightarrow> int list \<Rightarrow> timedelta
     \<Rightarrow> int list \<Rightarrow> (int \<times> labevent list) list \<Rightarrow> int list" where
  "subjects_loop sort_values vadrugs lactate_items ph_items min_duration candidates [] =
     candidates"
| "subjects_loop sort_values vadrugs lactate_items ph_items min_duration candidates
       (grp # groups) =
     subjects_loop sort_values vadrugs lactate_items ph_items min_duration
       (subject_step sort_values vadrugs lactate_items ph_items min_duration candidates grp)
       groups"

definition identify_acidosis_episodes ::
  "(labevent list \<Rightarrow> labevent list) \<Rightarrow> labevent list \<Rightarrow> emar list \<Rightarrow> int list \<Rightarrow> int list
     \<Rightarrow> timedelta \<Rightarrow> int list" where
  "identify_acidosis_episodes sort_values bp vadrugs lactate_items ph_items min_duration =
     subjects_loop sort_values vadrugs lactate_items ph_items min_duration []
       (groupby_subject_id bp)"

section \<open>Running a query\<close>

text \<open>
  The module binds \<^verbatim>\<open>bigquery\<close> to the imported library, or to \<^verbatim>\<open>None\<close> when the
  import fails: an option. The client is the remote service: a function from the text
  of a query to the table it returns, or to the exception it raises, which
  \<^verbatim>\<open>run_query\<close> lets through. The message of the \<^verbatim>\<open>RuntimeError\<close> is written with
  plain hyphens.
\<close>

datatype 'e error = RuntimeError string | ClientError 'e

definition not_installed_message :: string where
  "not_installed_message =
     ''google-cloud-bigquery is not installed. Please install it with''
     @ '' `pip install google-cloud-bigquery` and authenticate with GCP.''"

definition run_query :: "'lib option \<Rightarrow> (string \<Rightarrow> 'e + 'df) \<Rightarrow> string \<Rightarrow> 'e error + 'df" where
  "run_query bigquery client query =
     (case bigquery of
        None \<Rightarrow> Inl (RuntimeError not_installed_message)
      | Some lib \<Rightarrow>
          (case client query of
             Inl e \<Rightarrow> Inl (ClientError e)
           | Inr df \<Rightarrow> Inr df))"

section \<open>The comparison with the diagnosis codes\<close>

record diagnosis =
  subject_id :: int
  icd_code :: string

record cohort_row =
  subject_id :: int
  has_code :: bool

text \<open>Python's \<^verbatim>\<open>str\<close> on an integer, and \<^verbatim>\<open>sep.join\<close>.\<close>

fun str_nat :: "nat \<Rightarrow> string" where
  "str_nat n =
     (if n < 10 then [char_of (48 + n)]
      else str_nat (n div 10) @ [char_of (48 + n mod 10)])"

definition str_int :: "int \<Rightarrow> string" where
  "str_int i = (if i < 0 then CHR ''-'' # str_nat (nat (- i)) else str_nat (nat i))"

fun join :: "string \<Rightarrow> string list \<Rightarrow> string" where
  "join sep [] = []"
| "join sep [x] = x"
| "join sep (x # y # ys) = x @ sep @ join sep (y # ys)"

text \<open>
  \<^verbatim>\<open>set(subjects)\<close> holds each subject once. The order in which Python iterates a
  set is a detail of the interpreter; the model lists the elements in the order of
  their last occurrence in \<^verbatim>\<open>subjects\<close>, and no theorem below depends on this order.
\<close>

definition set_of_subjects :: "int list \<Rightarrow> int list" where
  "set_of_subjects subjects = remdups subjects"

definition diag_query :: "string \<Rightarrow> string \<Rightarrow> string" where
  "diag_query subj_str icd =
     [CHR 0x0A] @ ''        SELECT subject_id, icd_code'' @
     [CHR 0x0A] @ ''        FROM `physionet-data.mimiciv_hosp.diagnoses_icd`'' @
     [CHR 0x0A] @ ''        WHERE subject_id IN ('' @ subj_str @ '') AND icd_code LIKE ''
       @ [CHR 0x27] @ icd @ [CHR 0x27] @
     [CHR 0x0A] @ ''    ''"

text \<open>
  \<^verbatim>\<open>all_df.merge(right, how='left', on='subject_id')\<close>: for each row of the left frame,
  in order, one row for each row of the right frame with the same key, and one row
  with a missing \<^verbatim>\<open>has_code\<close> when there is none. \<^verbatim>\<open>fillna(False)\<close> then replaces
  the missing values (the model takes the in-place fill to reach \<^verbatim>\<open>result\<close>).
\<close>

definition merge_left :: "int list \<Rightarrow> (int \<times> bool) list \<Rightarrow> (int \<times> bool option) list" where
  "merge_left all_df right =
     concat (map (\<lambda>s.
        (case filter (\<lambda>r. fst r = s) right of
           [] \<Rightarrow> [(s, None)]
         | m # ms \<Rightarrow> map (\<lambda>r. (s, Some (snd r))) (m # ms))) all_df)"

definition fillna_False :: "(int \<times> bool option) list \<Rightarrow> cohort_row list" where
  "fillna_False result =
     map (\<lambda>(s, h). \<lparr>cohort_row.subject_id = s,
                     has_code = (case h of None \<Rightarrow> False | Some b \<Rightarrow> b)\<rparr>) result"

definition evaluate_against_diagnosis ::
  "'lib option \<Rightarrow> (string \<Rightarrow> 'e + diagnosis list) \<Rightarrow> int list \<Rightarrow> string
     \<Rightarrow> 'e error + cohort_row list" where
  "evaluate_against_diagnosis bigquery client subjects icd =
     (if subjects = [] then Inr []
      else
        (let subj_str = join '','' (map str_int (set_of_subjects subjects))
         in case run_query bigquery client (diag_query subj_str icd) of
              Inl e \<Rightarrow> Inl e
            | Inr diag_df \<Rightarrow>
                (let right = map (\<lambda>d. (diagnosis.subject_id d, True)) diag_df;
                     all_df = set_of_subjects subjects;
                     result = merge_left all_df right
                 in Inr (fillna_False result))))"

section \<open>The summary printed by main\<close>

text \<open>
  Lines 232 to 234. \<^verbatim>\<open>/\<close> raises \<^verbatim>\<open>ZeroDivisionError\<close> on a zero divisor, which
  \<open>truediv\<close> makes a value; \<open>accuracy\<close> is the conditional expression of line 234.
\<close>

datatype arith_error = ZeroDivisionError

definition truediv :: "real \<Rightarrow> real \<Rightarrow> arith_error + real" where
  "truediv a b = (if b = 0 then Inl ZeroDivisionError else Inr (a / b))"

definition accuracy :: "nat \<Rightarrow> nat \<Rightarrow> arith_error + real" where
  "accuracy num_with_code total_subjects =
     (if total_subjects > 0 then
        (case truediv (real num_with_code) (real total_subjects) of
           Inl e \<Rightarrow> Inl e
         | Inr q \<Rightarrow> Inr (q * 100))
      else Inr 0.0)"

definition main_summary :: "cohort_row list \<Rightarrow> nat \<times> nat \<times> (arith_error + real)" where
  "main_summary results =
     (let total_subjects = length results;
          num_with_code = length (filter has_code results)
      in (total_subjects, num_with_code, accuracy num_with_code total_subjects))"

section \<open>Properties of streams and episode lists, and example inputs\<close>

definition abnormal_record :: "int list \<Rightarrow> int list \<Rightarrow> labevent \<Rightarrow> bool" where
  "abnormal_record lactate_items ph_items record =
     is_abnormal lactate_items ph_items (itemid record) (measure_value record)"

text \<open>
  An episode precedes another when it ends at or before the start of the other, and
  strictly precedes it when it ends before that start.
\<close>

definition precedes :: "episode \<Rightarrow> episode \<Rightarrow> bool" where
  "precedes a b \<longleftrightarrow> snd a \<le> fst b"

definition strictly_precedes :: "episode \<Rightarrow> episode \<Rightarrow> bool" where
  "strictly_precedes a b \<longleftrightarrow> snd a < fst b"

text \<open>An episode that a scan of \<open>data\<close> may close: long enough, and ended by a normal record.\<close>

definition closed_ok ::
  "int list \<Rightarrow> int list \<Rightarrow> timedelta \<Rightarrow> labevent list \<Rightarrow> episode \<Rightarrow> bool" where
  "closed_ok lactate_items ph_items min_duration data ep \<longleftrightarrow>
     snd ep - fst ep \<ge> min_duration
     \<and> (\<exists>r\<in>set data. \<not> abnormal_record lactate_items ph_items r \<and> charttime r = snd ep)"

text \<open>
  The invariants of the scan of a sorted stream; \<open>lo\<close> is a lower bound of the times
  still to come.
\<close>

definition scan_inv :: "instant \<Rightarrow> scan_state \<Rightarrow> bool" where
  "scan_inv lo st \<longleftrightarrow>
     (case st of (start, episodes) \<Rightarrow>
        sorted_wrt precedes episodes
        \<and> (\<forall>ep\<in>set episodes. fst ep \<le> snd ep
              \<and> snd ep \<le> (case start of None \<Rightarrow> lo | Some s \<Rightarrow> s))
        \<and> (case start of None \<Rightarrow> True | Some s \<Rightarrow> s \<le> lo))"

definition scan_inv_strict :: "instant \<Rightarrow> scan_state \<Rightarrow> bool" where
  "scan_inv_strict lo st \<longleftrightarrow>
     (case st of (start, episodes) \<Rightarrow>
        sorted_wrt strictly_precedes episodes
        \<and> (\<forall>ep\<in>set episodes. snd ep \<le> lo)
        \<and> (case start of None \<Rightarrow> True
            | Some s \<Rightarrow> s \<le> lo \<and> (\<forall>ep\<in>set episodes. snd ep < s)))"

text \<open>Some administration of \<open>subject_drugs\<close> lies strictly inside some episode.\<close>

definition administered_inside :: "emar list \<Rightarrow> episode list \<Rightarrow> bool" where
  "administered_inside subject_drugs episodes \<longleftrightarrow>
     (\<exists>ep\<in>set episodes. \<exists>a\<in>set subject_drugs. \<exists>t.
        scheduletime a = Some t \<and> t > fst ep \<and> t < snd ep)"

definition subject_flagged ::
  "(labevent list \<Rightarrow> labevent list) \<Rightarrow> emar list \<Rightarrow> int list \<Rightarrow> int list \<Rightarrow> timedelta
     \<Rightarrow> int \<times> labevent list \<Rightarrow> bool" where
  "subject_flagged sort_values vadrugs lactate_items ph_items min_duration grp \<longleftrightarrow>
     administered_inside (filter (\<lambda>a. emar.subject_id a = fst grp) vadrugs)
       (find_episodes lactate_items ph_items min_duration (sort_values (snd grp)))"

text \<open>
  The rows that the left merge and the fill produce for one subject: one row with
  \<open>False\<close> when no row of the query result has the subject, and otherwise one row with
  \<open>True\<close> for each row of the query result that has it.
\<close>

definition rows_for :: "diagnosis list \<Rightarrow> int \<Rightarrow> cohort_row list" where
  "rows_for diag_df s =
     (let n = length (filter (\<lambda>d. diagnosis.subject_id d = s) diag_df)
      in if n = 0 then [\<lparr>cohort_row.subject_id = s, has_code = False\<rparr>]
         else replicate n \<lparr>cohort_row.subject_id = s, has_code = True\<rparr>)"

text \<open>
  Example inputs. \<open>lab\<close> builds a row of lab events. Item 50813 stands for lactate and
  50820 for pH. Times are in microseconds: ten minutes are 600000000.
\<close>

definition lab :: "int \<Rightarrow> instant \<Rightarrow> int \<Rightarrow> real \<Rightarrow> labevent" where
  "lab sid t item val =
     \<lparr>labevent.subject_id = sid, hadm_id = None, charttime = t, itemid = item,
      measure_value = val\<rparr>"

definition drug :: "int \<Rightarrow> instant option \<Rightarrow> emar" where
  "drug sid t = \<lparr>emar.subject_id = sid, medication = ''norepinephrine'', scheduletime = t\<rparr>"

text \<open>
  Lactate 2.0, 5.0, 6.0, 3.0 at T, T + 10 min, T + 130 min, T + 140 min, with T = 0, and
  a later abnormal reading at T + 150 min.
\<close>

definition retained_stream :: "labevent list" where
  "retained_stream =
     [lab 1 0 50813 2.0, lab 1 600000000 50813 5.0, lab 1 7800000000 50813 6.0,
      lab 1 8400000000 50813 3.0]"

definition late_abnormal :: labevent where
  "late_abnormal = lab 1 9000000000 50813 6.5"

text \<open>
  A sorted stream in which a normal pH and an abnormal lactate share the time 10: one
  blood gas reports both.
\<close>

definition tied_stream :: "labevent list" where
  "tied_stream =
     [lab 1 0 50813 5.0, lab 1 10 50820 7.4, lab 1 10 50813 5.0, lab 1 20 50813 3.0]"

definition spaced_stream :: "labevent list" where
  "spaced_stream =
     [lab 1 0 50813 5.0, lab 1 10 50820 7.4, lab 1 11 50813 5.0, lab 1 20 50813 3.0]"

text \<open>
  The episode from 10:00 to 13:00 of one day, and administrations at 09:30, 10:00,
  11:00, 13:00 and 13:30, in microseconds since midnight.
\<close>

definition morning_episode :: episode where
  "morning_episode = (36000000000, 46800000000)"

definition outside_drugs :: "emar list" where
  "outside_drugs =
     [drug 1 (Some 34200000000), drug 1 (Some 36000000000), drug 1 None,
      drug 1 (Some 46800000000), drug 1 (Some 48600000000)]"

definition inside_drug :: emar where
  "inside_drug = drug 1 (Some 39600000000)"

text \<open>Two subjects, given with subject 2 first; each has a long episode with a drug inside.\<close>

definition two_subjects_bp :: "labevent list" where
  "two_subjects_bp =
     [lab 2 300 50813 3.0, lab 2 0 50813 6.0, lab 1 200 50820 7.4, lab 1 0 50820 7.1,
      lab 3 0 50813 1.0]"

definition two_subjects_drugs :: "emar list" where
  "two_subjects_drugs = [drug 2 (Some 100), drug 1 (Some 50), drug 2 (Some 150), drug 3 (Some 5)]"

text \<open>
  A query result in which subject 1 has the code in two admissions, and the client
  that returns it.
\<close>

definition two_admissions :: "diagnosis list" where
  "two_admissions =
     [\<lparr>diagnosis.subject_id = 1, icd_code = ''E872''\<rparr>,
      \<lparr>diagnosis.subject_id = 1, icd_code = ''E872''\<rparr>]"

definition two_admissions_client :: "string \<Rightarrow> unit + diagnosis list" where
  "two_admissions_client query = Inr two_admissions"

text \<open>A client that returns the text of the query as its table, and one that fails.\<close>

definition echo_client :: "string \<Rightarrow> unit + string" where
  "echo_client query = Inr query"

definition failing_client :: "string \<Rightarrow> unit + string" where
  "failing_client query = Inl ()"

section \<open>The classifier: theorems\<close>

text \<open>
  Claim C3. A measurement is abnormal exactly when its item is a lactate item and the
  value is above 4.0, or its item is a pH item and the value is at most 7.35. An item in
  neither list is never abnormal, whatever the value.
\<close>

theorem is_abnormal_iff:
  "(is_abnormal lactate_items ph_items item val \<longleftrightarrow>
      (item \<in> set lactate_items \<and> val > 4.0) \<or> (item \<in> set ph_items \<and> val \<le> 7.35))
   \<and> (item \<notin> set lactate_items \<and> item \<notin> set ph_items
        \<longrightarrow> \<not> is_abnormal lactate_items ph_items item val)"
  by (auto simp: is_abnormal_def)

theorem is_abnormal_iff_witness:
  "is_abnormal [50813] [50820] 50813 5.2
   \<and> \<not> is_abnormal [50813] [50820] 50813 4.0
   \<and> is_abnormal [50813] [50820] 50820 7.35
   \<and> \<not> is_abnormal [50813] [50820] 50820 7.36
   \<and> \<not> is_abnormal [50813] [50820] 50931 9.0"
  using is_abnormal_iff [of "[50813]" "[50820]" 50813 "5.2"]
    is_abnormal_iff [of "[50813]" "[50820]" 50813 "4.0"]
    is_abnormal_iff [of "[50813]" "[50820]" 50820 "7.35"]
    is_abnormal_iff [of "[50813]" "[50820]" 50820 "7.36"]
    is_abnormal_iff [of "[50813]" "[50820]" 50931 "9.0"]
  by simp

text \<open>
  Claim C9. When an item belongs to both lists, every value is abnormal: a value is
  above 4.0 or at most 7.35. A record of such an item therefore leaves an open run
  open and the list of episodes as it was.
\<close>

theorem is_abnormal_both_lists:
  assumes "item \<in> set lactate_items" and "item \<in> set ph_items"
  shows "is_abnormal lactate_items ph_items item val
    \<and> (itemid record = item \<longrightarrow>
         scan_record lactate_items ph_items min_duration (Some s, episodes) record
           = (Some s, episodes))"
proof -
  have cover: "v > 4.0 \<or> v \<le> 7.35" for v :: real
    by (cases "v > 4") simp_all
  have abn: "is_abnormal lactate_items ph_items item v" for v
    using assms cover [of v] by (auto simp: is_abnormal_def)
  have "scan_record lactate_items ph_items min_duration (Some s, episodes) record
          = (Some s, episodes)" if "itemid record = item"
    using that abn [of "measure_value record"] by (simp add: scan_record_def)
  with abn show ?thesis
    by blast
qed

theorem is_abnormal_both_lists_witness:
  "is_abnormal [50813, 7] [7, 50820] 7 6
   \<and> scan_record [50813, 7] [7, 50820] 120 (Some 10, [(0, 5)])
        \<lparr>labevent.subject_id = 1, hadm_id = None, charttime = 500, itemid = 7, measure_value = 6\<rparr>
       = (Some 10, [(0, 5)])"
  using is_abnormal_both_lists [of 7 "[50813, 7]" "[7, 50820]" 6
      "\<lparr>labevent.subject_id = 1, hadm_id = None, charttime = 500, itemid = 7, measure_value = 6\<rparr>"
      120 10 "[(0, 5)]"]
  by simp

section \<open>The episode scan: theorems\<close>

lemma scan_records_append:
  "scan_records L P d st (xs @ ys) = scan_records L P d (scan_records L P d st xs) ys"
  by (induction xs arbitrary: st) simp_all

lemma scan_record_abnormal_snd:
  "abnormal_record L P r \<Longrightarrow> snd (scan_record L P d st r) = snd st"
  by (cases st) (simp add: scan_record_def abnormal_record_def split: option.splits)

lemma scan_records_abnormal_snd:
  "\<forall>r\<in>set run. abnormal_record L P r \<Longrightarrow> snd (scan_records L P d st run) = snd st"
  by (induction run arbitrary: st) (simp_all add: scan_record_abnormal_snd)

lemma scan_record_new_episode:
  assumes "ep \<in> set (snd (scan_record L P d st r))"
  shows "ep \<in> set (snd st)
    \<or> (snd ep - fst ep \<ge> d \<and> \<not> abnormal_record L P r \<and> charttime r = snd ep)"
  using assms
  by (cases st)
    (auto simp: scan_record_def abnormal_record_def Let_def split: option.splits if_splits)

lemma scan_records_new_episode:
  assumes "ep \<in> set (snd (scan_records L P d st data))"
  shows "ep \<in> set (snd st) \<or> closed_ok L P d data ep"
  using assms
proof (induction data arbitrary: st)
  case Nil
  then show ?case by simp
next
  case (Cons r data)
  from Cons.IH [of "scan_record L P d st r"] Cons.prems
  have "ep \<in> set (snd (scan_record L P d st r)) \<or> closed_ok L P d data ep"
    by simp
  then show ?case
  proof
    assume "ep \<in> set (snd (scan_record L P d st r))"
    from scan_record_new_episode [OF this] show ?thesis
      by (auto simp: closed_ok_def)
  next
    assume "closed_ok L P d data ep"
    then show ?thesis by (auto simp: closed_ok_def)
  qed
qed

text \<open>
  Claim C1. Every episode that the scan emits lasts at least \<open>min_duration\<close> and ends
  at the time of a normal record of the stream; and a run that is still abnormal when
  the stream ends yields no episode: the stream followed by abnormal records only has
  the episodes of the stream alone. This holds for every stream, sorted or not.
\<close>

theorem find_episodes_min_duration_closed:
  "(\<forall>ep\<in>set (find_episodes lactate_items ph_items min_duration data).
       snd ep - fst ep \<ge> min_duration
       \<and> (\<exists>r\<in>set data. \<not> abnormal_record lactate_items ph_items r \<and> charttime r = snd ep))
   \<and> ((\<forall>r\<in>set run. abnormal_record lactate_items ph_items r)
        \<longrightarrow> find_episodes lactate_items ph_items min_duration (data @ run)
            = find_episodes lactate_items ph_items min_duration data)"
proof (intro conjI ballI impI)
  fix ep assume "ep \<in> set (find_episodes lactate_items ph_items min_duration data)"
  then have "closed_ok lactate_items ph_items min_duration data ep"
    using scan_records_new_episode [of ep lactate_items ph_items min_duration "(None, [])" data]
    by (simp add: find_episodes_def)
  then show "snd ep - fst ep \<ge> min_duration"
    and "\<exists>r\<in>set data. \<not> abnormal_record lactate_items ph_items r \<and> charttime r = snd ep"
    by (simp_all add: closed_ok_def)
next
  assume "\<forall>r\<in>set run. abnormal_record lactate_items ph_items r"
  then show "find_episodes lactate_items ph_items min_duration (data @ run)
      = find_episodes lactate_items ph_items min_duration data"
    by (simp add: find_episodes_def scan_records_append scan_records_abnormal_snd)
qed

lemma retained_stream_episodes:
  "find_episodes [50813] [50820] default_min_duration retained_stream
     = [(600000000, 8400000000)]"
  by (simp add: find_episodes_def scan_record_def is_abnormal_def retained_stream_def
      lab_def default_min_duration_def)

lemma late_abnormal_is_abnormal: "abnormal_record [50813] [50820] late_abnormal"
  by (simp add: abnormal_record_def is_abnormal_def late_abnormal_def lab_def)

theorem find_episodes_min_duration_closed_witness:
  "abnormal_record [50813] [50820] late_abnormal
   \<and> find_episodes [50813] [50820] default_min_duration retained_stream
       = [(600000000, 8400000000)]
   \<and> 8400000000 - 600000000 \<ge> default_min_duration
   \<and> find_episodes [50813] [50820] default_min_duration (retained_stream @ [late_abnormal])
       = [(600000000, 8400000000)]"
  using find_episodes_min_duration_closed
    [of "[50813]" "[50820]" default_min_duration retained_stream "[late_abnormal]"]
  by (simp add: retained_stream_episodes late_abnormal_is_abnormal)

lemma scan_record_inv:
  assumes "scan_inv lo st" and "lo \<le> charttime r"
  shows "scan_inv (charttime r) (scan_record L P d st r)"
  using assms
  by (cases st)
    (auto simp: scan_inv_def scan_record_def Let_def sorted_wrt_append precedes_def
          split: option.splits)

lemma scan_records_inv:
  assumes "sorted (map charttime data)" and "\<forall>r\<in>set data. lo \<le> charttime r"
    and "scan_inv lo st"
  shows "\<exists>hi. scan_inv hi (scan_records L P d st data)"
  using assms
proof (induction data arbitrary: lo st)
  case Nil
  then show ?case by auto
next
  case (Cons r data)
  have "scan_inv (charttime r) (scan_record L P d st r)"
    using Cons.prems by (simp add: scan_record_inv)
  moreover have "sorted (map charttime data)" "\<forall>x\<in>set data. charttime r \<le> charttime x"
    using Cons.prems(1) by simp_all
  ultimately show ?case
    using Cons.IH [of "charttime r" "scan_record L P d st r"] by simp
qed

lemma scan_record_inv_strict:
  assumes "scan_inv_strict lo st" and "lo < charttime r"
  shows "scan_inv_strict (charttime r) (scan_record L P d st r)"
  using assms
  by (cases st)
    (auto simp: scan_inv_strict_def scan_record_def Let_def sorted_wrt_append
          strictly_precedes_def split: option.splits)

lemma scan_records_inv_strict:
  assumes "sorted_wrt (<) (map charttime data)" and "\<forall>r\<in>set data. lo < charttime r"
    and "scan_inv_strict lo st"
  shows "\<exists>hi. scan_inv_strict hi (scan_records L P d st data)"
  using assms
proof (induction data arbitrary: lo st)
  case Nil
  then show ?case by auto
next
  case (Cons r data)
  have "scan_inv_strict (charttime r) (scan_record L P d st r)"
    using Cons.prems by (simp add: scan_record_inv_strict)
  moreover have "sorted_wrt (<) (map charttime data)"
    "\<forall>x\<in>set data. charttime r < charttime x"
    using Cons.prems(1) by simp_all
  ultimately show ?case
    using Cons.IH [of "charttime r" "scan_record L P d st r"] by simp
qed

lemma find_episodes_precedes:
  assumes "sorted (map charttime data)"
  shows "sorted_wrt precedes (find_episodes L P d data)
     \<and> (\<forall>ep\<in>set (find_episodes L P d data). fst ep \<le> snd ep)"
proof (cases data)
  case Nil
  then show ?thesis by (simp add: find_episodes_def)
next
  case (Cons r rs)
  have "scan_inv (charttime r) (None, [])"
    by (simp add: scan_inv_def)
  moreover have "\<forall>x\<in>set data. charttime r \<le> charttime x"
    using assms Cons by auto
  ultimately obtain hi where "scan_inv hi (scan_records L P d (None, []) data)"
    using scan_records_inv [OF assms] by blast
  then show ?thesis
    by (cases "scan_records L P d (None, []) data") (auto simp: scan_inv_def find_episodes_def)
qed

lemma find_episodes_strictly_precedes:
  assumes "sorted_wrt (<) (map charttime data)"
  shows "sorted_wrt strictly_precedes (find_episodes L P d data)"
proof (cases data)
  case Nil
  then show ?thesis by (simp add: find_episodes_def)
next
  case (Cons r rs)
  have "scan_inv_strict (charttime r - 1) (None, [])"
    by (simp add: scan_inv_strict_def)
  moreover have "\<forall>x\<in>set data. charttime r - 1 < charttime x"
    using assms Cons by auto
  ultimately obtain hi where "scan_inv_strict hi (scan_records L P d (None, []) data)"
    using scan_records_inv_strict [OF assms] by blast
  then show ?thesis
    by (cases "scan_records L P d (None, []) data")
      (auto simp: scan_inv_strict_def find_episodes_def)
qed

text \<open>
  Claim C4, as stated, fails. In the sorted stream \<open>tied_stream\<close> the normal record
  that ends the first episode and the abnormal record that starts the second one share
  the time 10, so the first episode does not end strictly before the second starts.
\<close>

theorem tied_stream_not_strict:
  "sorted (map charttime tied_stream)
   \<and> find_episodes [50813] [50820] 5 tied_stream = [(0, 10), (10, 20)]
   \<and> \<not> sorted_wrt strictly_precedes (find_episodes [50813] [50820] 5 tied_stream)"
  by (simp add: find_episodes_def scan_record_def is_abnormal_def tied_stream_def lab_def
      strictly_precedes_def)

text \<open>
  Claim C4, amended. For a sorted stream the episodes are in time order and do not
  overlap: each episode starts at or before its own end, and ends at or before the
  start of every later episode. When no two records of the stream share a time, each
  episode ends strictly before the start of every later one.
\<close>

theorem find_episodes_ordered:
  assumes "sorted (map charttime data)"
  shows "sorted_wrt precedes (find_episodes lactate_items ph_items min_duration data)
     \<and> (\<forall>ep\<in>set (find_episodes lactate_items ph_items min_duration data). fst ep \<le> snd ep)
     \<and> (distinct (map charttime data) \<longrightarrow>
          sorted_wrt strictly_precedes
            (find_episodes lactate_items ph_items min_duration data))"
  using assms find_episodes_precedes [OF assms]
    find_episodes_strictly_precedes [of data lactate_items ph_items min_duration]
  by (simp add: strict_sorted_iff)

theorem find_episodes_ordered_witness:
  "sorted (map charttime tied_stream)
   \<and> sorted_wrt precedes (find_episodes [50813] [50820] 5 tied_stream)
   \<and> sorted (map charttime spaced_stream) \<and> distinct (map charttime spaced_stream)
   \<and> find_episodes [50813] [50820] 5 spaced_stream = [(0, 10), (11, 20)]
   \<and> sorted_wrt strictly_precedes (find_episodes [50813] [50820] 5 spaced_stream)"
proof -
  have tied: "sorted (map charttime tied_stream)"
    by (simp add: tied_stream_def lab_def)
  have spaced: "sorted (map charttime spaced_stream)" "distinct (map charttime spaced_stream)"
    by (simp_all add: spaced_stream_def lab_def)
  have "find_episodes [50813] [50820] 5 spaced_stream = [(0, 10), (11, 20)]"
    by (simp add: find_episodes_def scan_record_def is_abnormal_def spaced_stream_def lab_def)
  with tied spaced find_episodes_ordered [OF tied, of "[50813]" "[50820]" 5]
    find_episodes_ordered [OF spaced(1), of "[50813]" "[50820]" 5]
  show ?thesis
    by simp
qed

section \<open>The medication window: theorems\<close>

lemma meds_in_window_nonempty:
  "meds_in_window subject_drugs start end_time \<noteq> [] \<longleftrightarrow>
     (\<exists>a\<in>set subject_drugs. \<exists>t. scheduletime a = Some t \<and> t > start \<and> t < end_time)"
  by (auto simp: meds_in_window_def in_window_def filter_empty_conv split: option.splits)

lemma administered_inside_Nil: "\<not> administered_inside subject_drugs []"
  by (simp add: administered_inside_def)

lemma administered_inside_Cons:
  "administered_inside subject_drugs ((s, e) # episodes) \<longleftrightarrow>
     meds_in_window subject_drugs s e \<noteq> [] \<or> administered_inside subject_drugs episodes"
  by (simp add: administered_inside_def meds_in_window_nonempty)

lemma check_episodes_eq:
  "check_episodes subject_drugs sid candidates episodes =
     (if administered_inside subject_drugs episodes then candidates @ [sid] else candidates)"
proof (induction episodes)
  case Nil
  then show ?case by (simp add: administered_inside_Nil)
next
  case (Cons ep episodes)
  obtain s e where ep: "ep = (s, e)" by (cases ep)
  from Cons.IH show ?case
    unfolding ep by (simp add: administered_inside_Cons)
qed

text \<open>
  Claim C2. The loop over the episodes appends the subject to the candidates exactly
  when some administration of the subject has a schedule time strictly after the start
  and strictly before the end of some episode; otherwise the candidates are unchanged.
  In particular, when every administration is at or before the start, or at or after
  the end, of every episode, the subject is not appended.
\<close>

theorem check_episodes_flags_iff:
  "(check_episodes subject_drugs sid candidates episodes = candidates @ [sid] \<longleftrightarrow>
      (\<exists>ep\<in>set episodes. \<exists>a\<in>set subject_drugs. \<exists>t.
         scheduletime a = Some t \<and> t > fst ep \<and> t < snd ep))
   \<and> (check_episodes subject_drugs sid candidates episodes = candidates \<longleftrightarrow>
      \<not> (\<exists>ep\<in>set episodes. \<exists>a\<in>set subject_drugs. \<exists>t.
         scheduletime a = Some t \<and> t > fst ep \<and> t < snd ep))
   \<and> ((\<forall>ep\<in>set episodes. \<forall>a\<in>set subject_drugs. \<forall>t.
         scheduletime a = Some t \<longrightarrow> t \<le> fst ep \<or> snd ep \<le> t)
      \<longrightarrow> check_episodes subject_drugs sid candidates episodes = candidates)"
proof -
  have boundary: "\<not> administered_inside subject_drugs episodes"
    if "\<forall>ep\<in>set episodes. \<forall>a\<in>set subject_drugs. \<forall>t.
         scheduletime a = Some t \<longrightarrow> t \<le> fst ep \<or> snd ep \<le> t"
    using that unfolding administered_inside_def by (meson not_less)
  show ?thesis
    unfolding check_episodes_eq using boundary
    by (simp add: administered_inside_def [symmetric])
qed

theorem check_episodes_flags_iff_witness:
  "check_episodes outside_drugs 1 [7] [morning_episode] = [7]
   \<and> check_episodes (outside_drugs @ [inside_drug]) 1 [7] [morning_episode] = [7, 1]
   \<and> inside_drug \<in> set (outside_drugs @ [inside_drug])
   \<and> scheduletime inside_drug = Some 39600000000
   \<and> fst morning_episode < 39600000000 \<and> 39600000000 < snd morning_episode"
  using check_episodes_flags_iff [of outside_drugs 1 "[7]" "[morning_episode]"]
    check_episodes_flags_iff [of "outside_drugs @ [inside_drug]" 1 "[7]" "[morning_episode]"]
  by (simp add: outside_drugs_def inside_drug_def morning_episode_def drug_def
      meds_in_window_def in_window_def)

section \<open>The loop over the subjects: theorems\<close>

lemma subject_step_eq:
  "subject_step sv vadrugs L P d candidates grp =
     (if subject_flagged sv vadrugs L P d grp then candidates @ [fst grp] else candidates)"
  by (cases grp) (simp add: subject_step_def subject_flagged_def Let_def check_episodes_eq)

lemma subjects_loop_eq:
  "subjects_loop sv vadrugs L P d candidates groups =
     candidates @ map fst (filter (subject_flagged sv vadrugs L P d) groups)"
  by (induction groups arbitrary: candidates) (simp_all add: subject_step_eq)

lemma groupby_keys:
  "map fst (groupby_subject_id bp) = sort (remdups (map labevent.subject_id bp))"
  by (simp add: groupby_subject_id_def comp_def)

text \<open>
  Claim C10. The list of candidates holds each subject at most once and is in ascending
  order of the subject identifier; every candidate is a subject of the lab events. This
  holds whatever order the sort gives to the rows of a subject.
\<close>

theorem candidates_distinct_sorted:
  "distinct (identify_acidosis_episodes sort_values bp vadrugs lactate_items ph_items
       min_duration)
   \<and> sorted (identify_acidosis_episodes sort_values bp vadrugs lactate_items ph_items
       min_duration)
   \<and> set (identify_acidosis_episodes sort_values bp vadrugs lactate_items ph_items
       min_duration) \<subseteq> labevent.subject_id ` set bp"
proof -
  let ?groups = "groupby_subject_id bp"
  let ?Q = "subject_flagged sort_values vadrugs lactate_items ph_items min_duration"
  have keys: "distinct (map fst ?groups)" "sorted (map fst ?groups)"
    "set (map fst ?groups) = labevent.subject_id ` set bp"
    unfolding groupby_keys by simp_all
  have "distinct (map fst (filter ?Q ?groups))"
    using keys(1) by (rule distinct_map_filter)
  moreover have "sorted (map fst (filter ?Q ?groups))"
    using keys(2) by (rule sorted_filter)
  moreover have "set (map fst (filter ?Q ?groups)) \<subseteq> labevent.subject_id ` set bp"
    using keys(3) by auto
  ultimately show ?thesis
    by (simp add: identify_acidosis_episodes_def subjects_loop_eq)
qed

lemma two_subjects_candidates:
  "identify_acidosis_episodes sort_by_charttime two_subjects_bp two_subjects_drugs
     [50813] [50820] 120 = [1, 2]"
  by (simp add: identify_acidosis_episodes_def groupby_subject_id_def subject_step_def
      sort_by_charttime_def find_episodes_def scan_record_def is_abnormal_def
      meds_in_window_def in_window_def two_subjects_bp_def two_subjects_drugs_def
      lab_def drug_def)

theorem candidates_distinct_sorted_witness:
  "identify_acidosis_episodes sort_by_charttime two_subjects_bp two_subjects_drugs
     [50813] [50820] 120 = [1, 2]
   \<and> distinct [1, 2 :: int] \<and> sorted [1, 2 :: int]"
  using candidates_distinct_sorted
    [of sort_by_charttime two_subjects_bp two_subjects_drugs "[50813]" "[50820]" 120]
  by (simp add: two_subjects_candidates)

section \<open>Running a query: theorems\<close>

text \<open>
  Claim C7. \<open>run_query\<close> raises the \<^verbatim>\<open>RuntimeError\<close> of the missing library exactly
  when \<^verbatim>\<open>bigquery\<close> is \<^verbatim>\<open>None\<close>. When the library is there, the query is passed
  to the client, and the result of \<open>run_query\<close> is the table the client returns, or
  the failure of the client.
\<close>

theorem run_query_unavailable_iff:
  "((\<exists>msg. run_query bigquery client query = Inl (RuntimeError msg)) \<longleftrightarrow> bigquery = None)
   \<and> (bigquery = None \<longrightarrow>
        run_query bigquery client query = Inl (RuntimeError not_installed_message))
   \<and> (bigquery \<noteq> None \<longrightarrow>
        run_query bigquery client query =
          (case client query of Inl e \<Rightarrow> Inl (ClientError e) | Inr df \<Rightarrow> Inr df))"
  by (auto simp: run_query_def split: option.splits sum.splits)

theorem run_query_unavailable_iff_witness:
  "run_query (None :: unit option) echo_client ''SELECT 1''
     = Inl (RuntimeError not_installed_message)
   \<and> run_query (Some ()) echo_client ''SELECT 1'' = Inr ''SELECT 1''
   \<and> run_query (Some ()) failing_client ''SELECT 1'' = Inl (ClientError ())"
  using run_query_unavailable_iff [of "None :: unit option" echo_client "''SELECT 1''"]
    run_query_unavailable_iff [of "Some ()" echo_client "''SELECT 1''"]
    run_query_unavailable_iff [of "Some ()" failing_client "''SELECT 1''"]
  by (simp add: echo_client_def failing_client_def)

section \<open>The comparison with the diagnosis codes: theorems\<close>

lemma filter_right_replicate:
  "filter (\<lambda>r. fst r = s) (map (\<lambda>d. (diagnosis.subject_id d, True)) diag_df)
     = replicate (length (filter (\<lambda>d. diagnosis.subject_id d = s) diag_df)) (s, True)"
  by (induction diag_df) auto

lemma fillna_False_append:
  "fillna_False (xs @ ys) = fillna_False xs @ fillna_False ys"
  by (simp add: fillna_False_def)

lemma merge_left_Cons:
  "merge_left (s # all_df) right =
     (case filter (\<lambda>r. fst r = s) right of
        [] \<Rightarrow> [(s, None)]
      | m # ms \<Rightarrow> map (\<lambda>r. (s, Some (snd r))) (m # ms)) @ merge_left all_df right"
  by (simp add: merge_left_def)

lemma fillna_block:
  "fillna_False
     (case replicate n (s, True) of
        [] \<Rightarrow> [(s, None)]
      | m # ms \<Rightarrow> map (\<lambda>r. (s, Some (snd r))) (m # ms))
   = (if n = 0 then [\<lparr>cohort_row.subject_id = s, has_code = False\<rparr>]
      else replicate n \<lparr>cohort_row.subject_id = s, has_code = True\<rparr>)"
  by (cases n) (simp_all add: fillna_False_def map_replicate_const)

lemma fillna_merge_left:
  "fillna_False (merge_left all_df (map (\<lambda>d. (diagnosis.subject_id d, True)) diag_df))
     = concat (map (rows_for diag_df) all_df)"
proof (induction all_df)
  case Nil
  then show ?case by (simp add: merge_left_def fillna_False_def)
next
  case (Cons s all_df)
  then show ?case
    by (simp add: merge_left_Cons fillna_False_append filter_right_replicate fillna_block
        rows_for_def Let_def)
qed

text \<open>
  What the function returns when the library is there and the client answers: the rows
  of each subject of the set, one after the other. A subject that the query result
  holds \<open>n > 1\<close> times has \<open>n\<close> rows.
\<close>

lemma evaluate_rows:
  assumes "subjects \<noteq> []"
    and "client (diag_query (join '','' (map str_int (set_of_subjects subjects))) icd)
           = Inr diag_df"
  shows "evaluate_against_diagnosis (Some lib) client subjects icd
           = Inr (concat (map (rows_for diag_df) (set_of_subjects subjects)))"
  using assms
  by (simp add: evaluate_against_diagnosis_def run_query_def Let_def fillna_merge_left)

text \<open>
  Claim C5 fails on the code. The query selects one row for each diagnosis with the
  code, so a subject with the code in two admissions is in two rows of the result; the
  left merge then returns two rows for this subject, where the claim has exactly one.
\<close>

theorem evaluate_duplicates_subject:
  "evaluate_against_diagnosis (Some ()) two_admissions_client [1] ''E872''
     = Inr [\<lparr>cohort_row.subject_id = 1, has_code = True\<rparr>,
            \<lparr>cohort_row.subject_id = 1, has_code = True\<rparr>]"
  by (simp add: evaluate_against_diagnosis_def run_query_def two_admissions_client_def
      two_admissions_def set_of_subjects_def merge_left_def fillna_False_def)

text \<open>
  Claim C6. For an empty list of subjects the function returns the empty table and
  raises nothing, whether the library is there or not and whatever the client does.
\<close>

theorem evaluate_empty:
  "evaluate_against_diagnosis bigquery client [] icd = Inr []"
  by (simp add: evaluate_against_diagnosis_def)

section \<open>The summary: theorems\<close>

text \<open>
  Claim C8. With no subject the percentage is 0.0, and the summary never raises
  \<^verbatim>\<open>ZeroDivisionError\<close>: the division is reached only with a positive number of
  subjects, where the percentage is the quotient times 100.
\<close>

theorem accuracy_guarded:
  "accuracy num_with_code 0 = Inr 0
   \<and> accuracy num_with_code total_subjects \<noteq> Inl ZeroDivisionError
   \<and> (total_subjects > 0 \<longrightarrow>
        accuracy num_with_code total_subjects
          = Inr (real num_with_code / real total_subjects * 100))
   \<and> main_summary [] = (0, 0, Inr 0)
   \<and> snd (snd (main_summary results)) \<noteq> Inl ZeroDivisionError"
  by (simp add: accuracy_def truediv_def main_summary_def Let_def)

theorem accuracy_guarded_witness:
  "accuracy 1 0 = Inr 0 \<and> (0::nat) < 4 \<and> accuracy 1 4 = Inr 25
   \<and> main_summary [\<lparr>cohort_row.subject_id = 1, has_code = True\<rparr>,
        \<lparr>cohort_row.subject_id = 2, has_code = False\<rparr>] = (2, 1, Inr 50)"
  using accuracy_guarded [of 1 4 "[\<lparr>cohort_row.subject_id = 1, has_code = True\<rparr>,
        \<lparr>cohort_row.subject_id = 2, has_code = False\<rparr>]"]
  by (simp add: main_summary_def accuracy_def truediv_def)

end
